theory Spec2Isabelle
  imports Complex_Main "HOL-Library.Log_Nat"
begin

section \<open>Errors and Python primitives\<close>

text \<open>
  The exceptions that the functions of \<^verbatim>\<open>actigraphy/io/data_import.py\<close> can raise on
  the paths modelled here. A function that can raise returns \<open>error + 'a\<close>, with
  \<open>Inl\<close> for the exception.
\<close>

datatype error = ValueError | IndexError | ZeroDivisionError

text \<open>
  A parsed, timezone-aware \<^verbatim>\<open>datetime.datetime\<close>, reduced to the two observations the
  code makes of it: \<open>instant\<close> is the absolute point in time, which is what Python's
  \<^verbatim>\<open>==\<close> compares on aware datetimes (and so what \<^verbatim>\<open>list.index\<close> searches for), and
  \<open>day\<close> is the attribute \<^verbatim>\<open>.day\<close>, the local calendar day of the month.
\<close>

record datetime =
  instant :: int
  day :: nat

text \<open>\<^verbatim>\<open>list.index(x)\<close>: position of the first element equal to \<open>x\<close>, ValueError when there is none.\<close>

fun list_index :: "datetime list \<Rightarrow> datetime \<Rightarrow> error + nat" where
  "list_index [] x = Inl ValueError"
| "list_index (y # ys) x =
     (if instant y = instant x then Inr 0
      else (case list_index ys x of Inl e \<Rightarrow> Inl e | Inr i \<Rightarrow> Inr (Suc i)))"

text \<open>\<^verbatim>\<open>itertools.pairwise\<close>: the successive overlapping pairs of a sequence.\<close>

definition itertools_pairwise :: "'a list \<Rightarrow> ('a \<times> 'a) list" where
  "itertools_pairwise xs = zip xs (tl xs)"

text \<open>\<^verbatim>\<open>xs[i]\<close> on a list: a negative index counts from the end, IndexError out of range.\<close>

definition py_getitem :: "'a list \<Rightarrow> int \<Rightarrow> error + 'a" where
  "py_getitem xs i =
     (let n = int (length xs) in
      if 0 \<le> i \<and> i < n then Inr (xs ! nat i)
      else if - n \<le> i \<and> i < 0 then Inr (xs ! nat (i + n))
      else Inl IndexError)"

text \<open>
  The bounds of a slice \<^verbatim>\<open>xs[start:stop]\<close> with step 1, as Python, pandas and numpy
  normalise them: a negative bound counts from the end, both are clamped to
  \<open>[0, len]\<close>, and a missing stop (\<^verbatim>\<open>None\<close>) is the length.
\<close>

definition slice_bound :: "nat \<Rightarrow> int \<Rightarrow> nat" where
  "slice_bound n i = (if i < 0 then nat (max (i + int n) 0) else min (nat i) n)"

definition slice_stop :: "nat \<Rightarrow> int option \<Rightarrow> nat" where
  "slice_stop n stop = (case stop of None \<Rightarrow> n | Some e \<Rightarrow> slice_bound n e)"

definition py_slice :: "'a list \<Rightarrow> int \<Rightarrow> int option \<Rightarrow> 'a list" where
  "py_slice xs start stop =
     (let s = slice_bound (length xs) start; e = slice_stop (length xs) stop
      in take (e - s) (drop s xs))"

text \<open>\<^verbatim>\<open>arr[start:stop] = v\<close> on a numpy array: every position of the slice is overwritten.\<close>

definition slice_assign :: "'a list \<Rightarrow> int \<Rightarrow> int \<Rightarrow> 'a \<Rightarrow> 'a list" where
  "slice_assign xs start stop v =
     (let s = slice_bound (length xs) start; e = slice_bound (length xs) stop
      in map (\<lambda>j. if s \<le> j \<and> j < e then v else xs ! j) [0..<length xs])"

text \<open>
  Python floats are IEEE 754 doubles: reals with a 53-bit significand, every operation
  rounding its exact result to the nearest of them, ties to the even significand.
  \<open>binary_exponent x\<close> is the \<open>e\<close> with \<open>2 ^ e \<le> \<bar>x\<bar> < 2 ^ (e + 1)\<close>, so the doubles
  around \<open>x\<close> are the multiples of \<open>2 ^ (e - 52)\<close>. The exponent is not bounded here:
  overflow and underflow, which need integers beyond \<open>10 ^ 300\<close>, are left out.
\<close>

definition binary_exponent :: "real \<Rightarrow> int" where
  "binary_exponent x =
     (if 1 \<le> \<bar>x\<bar> then bitlen \<lfloor>\<bar>x\<bar>\<rfloor> - 1 else - bitlen (\<lceil>1 / \<bar>x\<bar>\<rceil> - 1))"

definition two_pow :: "int \<Rightarrow> real" where
  "two_pow e = (if 0 \<le> e then 2 ^ nat e else 1 / 2 ^ nat (- e))"

definition round_half_even :: "real \<Rightarrow> int" where
  "round_half_even x =
     (let f = \<lfloor>x\<rfloor>; d = x - of_int f in
      if d < 1 / 2 then f else if 1 / 2 < d then f + 1 else if even f then f else f + 1)"

definition round_to_double :: "real \<Rightarrow> real" where
  "round_to_double x =
     (if x = 0 then 0
      else let ulp = two_pow (binary_exponent x - 52)
           in of_int (round_half_even (x / ulp)) * ulp)"

text \<open>
  The float operations of \<^verbatim>\<open>_adjust_timepoint_for_daylight_savings\<close>. An integer operand
  of a float operation is first converted (\<open>float_of_int\<close>, rounding beyond \<open>2 ^ 53\<close>);
  \<^verbatim>\<open>a / b\<close> on two integers is the double nearest the quotient; \<^verbatim>\<open>x // y\<close> on two
  doubles is compared with 25 and 23 only, and equals one of them exactly when the floor
  of the quotient of the two doubles does; \<^verbatim>\<open>int(x)\<close> truncates toward zero.
\<close>

definition float_of_int :: "int \<Rightarrow> real" where
  "float_of_int n = round_to_double (of_int n)"

definition py_truediv :: "int \<Rightarrow> int \<Rightarrow> real" where
  "py_truediv a b = round_to_double (of_int a / of_int b)"

definition py_floordiv :: "real \<Rightarrow> real \<Rightarrow> int" where
  "py_floordiv a b = \<lfloor>a / b\<rfloor>"

definition py_int :: "real \<Rightarrow> int" where
  "py_int x = (if 0 \<le> x then \<lfloor>x\<rfloor> else \<lceil>x\<rceil>)"

section \<open>Midnight indices\<close>

text \<open>
  The list comprehension of \<^verbatim>\<open>get_midnights\<close> (lines 84-88), over the already parsed
  timestamps: for each adjacent pair whose \<^verbatim>\<open>.day\<close> differs, the value
  \<^verbatim>\<open>timestamps.index(date_pairs[1]) + 1\<close>.
\<close>

fun midnight_indices :: "datetime list \<Rightarrow> (datetime \<times> datetime) list \<Rightarrow> error + int list" where
  "midnight_indices timestamps [] = Inr []"
| "midnight_indices timestamps (date_pairs # rest) =
     (if day (fst date_pairs) \<noteq> day (snd date_pairs) then
        (case list_index timestamps (snd date_pairs) of
           Inl e \<Rightarrow> Inl e
         | Inr i \<Rightarrow>
            (case midnight_indices timestamps rest of
               Inl e \<Rightarrow> Inl e
             | Inr r \<Rightarrow> Inr ((int i + 1) # r)))
      else midnight_indices timestamps rest)"

definition get_midnights :: "datetime list \<Rightarrow> error + int list" where
  "get_midnights timestamps = midnight_indices timestamps (itertools_pairwise timestamps)"

section \<open>Day windows\<close>

text \<open>
  \<^verbatim>\<open>_adjust_timepoint_for_daylight_savings\<close> (lines 222-227). Both tests read the
  \<open>day_length\<close> computed on entry; the second adds to the end the first may have
  changed. \<^verbatim>\<open>3600 / window_size\<close> and \<^verbatim>\<open>60 * 60 / window_size\<close> are float divisions of
  integers, raising ZeroDivisionError for a zero window size; \<^verbatim>\<open>//\<close> has the integer
  \<^verbatim>\<open>day_length + 1\<close> on the left and that float on the right.
\<close>

definition adjust_timepoint_for_daylight_savings :: "int \<Rightarrow> int \<Rightarrow> int \<Rightarrow> error + int" where
  "adjust_timepoint_for_daylight_savings start endp window_size =
     (if window_size = 0 then Inl ZeroDivisionError
      else
        let day_length = endp - start;
            end1 = (if py_floordiv (float_of_int (day_length + 1)) (py_truediv 3600 window_size) = 25
                    then endp - py_int (py_truediv (60 * 60) window_size) else endp);
            end2 = (if py_floordiv (float_of_int (day_length + 1)) (py_truediv 3600 window_size) = 23
                    then end1 + py_int (py_truediv (60 * 60) window_size) else end1)
        in Inr end2)"

text \<open>
  \<^verbatim>\<open>_day_start_and_end_time_points\<close> (lines 189-204), on the timestamps that
  \<^verbatim>\<open>get_midnights\<close> reads. \<^verbatim>\<open>if end:\<close> is false for \<^verbatim>\<open>None\<close> and for \<open>0\<close>.
\<close>

definition day_start_and_end_time_points ::
    "datetime list \<Rightarrow> int \<Rightarrow> int \<Rightarrow> error + (int \<times> int option)" where
  "day_start_and_end_time_points timestamps day_index window_size =
     (case get_midnights timestamps of
        Inl e \<Rightarrow> Inl e
      | Inr midnights \<Rightarrow>
         (let target_timepoints = Some 0 # map Some midnights @ [None] in
          case py_getitem (itertools_pairwise target_timepoints) day_index of
            Inl e \<Rightarrow> Inl e
          | Inr (start, endp) \<Rightarrow>
             (case start of
                None \<Rightarrow> Inl ValueError
              | Some s \<Rightarrow>
                 (case endp of
                    None \<Rightarrow> Inr (s, None)
                  | Some e \<Rightarrow>
                     if e \<noteq> 0 then
                       (case adjust_timepoint_for_daylight_savings s e window_size of
                          Inl err \<Rightarrow> Inl err
                        | Inr time_day_ends \<Rightarrow> Inr (s, Some time_day_ends))
                     else Inr (s, Some e)))))"

section \<open>Assembling a day\<close>

text \<open>
  The non-wear projection of \<^verbatim>\<open>get_graph_data\<close> (lines 131-141): a zero vector of the
  length of the fine series; \<^verbatim>\<open>np.where(nonwearscore > 1)[0]\<close> lists, in increasing
  order, the coarse indices whose score exceeds 1; for each of them the slice
  \<^verbatim>\<open>[index : index + window_size_ratio]\<close> is set to 1.
\<close>

definition nonwear_elements :: "int list \<Rightarrow> nat list" where
  "nonwear_elements nonwearscore =
     filter (\<lambda>i. nonwearscore ! i > 1) [0..<length nonwearscore]"

definition project_nonwear :: "int list \<Rightarrow> int \<Rightarrow> nat \<Rightarrow> int list" where
  "project_nonwear nonwearscore window_size_ratio fine_length =
     fold (\<lambda>index nonwear. slice_assign nonwear (int index) (int index + window_size_ratio) 1)
          (nonwear_elements nonwearscore) (replicate fine_length 0)"

text \<open>\<^verbatim>\<open>_extend_data\<close> (lines 246-253); the action is a string or \<^verbatim>\<open>None\<close>.\<close>

definition extend_data :: "'a list \<Rightarrow> 'a list \<Rightarrow> string option \<Rightarrow> error + 'a list" where
  "extend_data data extension action =
     (if action = Some ''prepend'' then Inr (extension @ data)
      else if action = Some ''append'' then Inr (data @ extension)
      else if action \<noteq> None then Inl ValueError
      else Inr data)"

text \<open>
  The recording as \<^verbatim>\<open>get_graph_data\<close> reads it: the fine series \<^verbatim>\<open>metashort\<close> is a data
  frame, so a list of rows with a timestamp, ENMO and anglez each; \<^verbatim>\<open>metalong\<close>
  carries the coarse non-wear score; \<open>window_size_fine\<close> is \<^verbatim>\<open>windowsizes[0]\<close> and
  \<open>window_size_coarse\<close> is \<^verbatim>\<open>windowsizes[1]\<close>.
\<close>

record metashort_row =
  timestamp :: datetime
  ENMO :: real
  anglez :: real

record metadata =
  metashort :: "metashort_row list"
  nonwearscore :: "int list"
  window_size_fine :: int
  window_size_coarse :: int

text \<open>
  \<^verbatim>\<open>get_graph_data\<close> (lines 126-170). The subject's \<open>n_points_per_day\<close>, read from the
  database in the source, is a parameter. \<^verbatim>\<open>[0] * k\<close> is empty for a negative \<open>k\<close>.
  The samples are reals and the rescaling of the magnitude is exact arithmetic on them:
  the rounding of its three float operations changes no index, length or branch.
\<close>

definition get_graph_data ::
    "metadata \<Rightarrow> int \<Rightarrow> int \<Rightarrow> error + (real list \<times> real list \<times> int list)" where
  "get_graph_data md day_index n_points_per_day =
     (let enmo = map ENMO (metashort md);
          angz = map anglez (metashort md)
      in
      if window_size_fine md = 0 then Inl ZeroDivisionError
      else
        let window_size_ratio = window_size_coarse md div window_size_fine md - 1;
            nonwear = project_nonwear (nonwearscore md) window_size_ratio (length enmo)
        in
        case day_start_and_end_time_points (map timestamp (metashort md)) day_index
               (window_size_fine md) of
          Inl e \<Rightarrow> Inl e
        | Inr (time_day_starts, time_day_ends) \<Rightarrow>
           (let acc = map (\<lambda>v. \<bar>v * 1000\<bar>) (py_slice enmo time_day_starts time_day_ends);
                ang = py_slice angz time_day_starts time_day_ends;
                non_wear = py_slice nonwear time_day_starts time_day_ends;
                k = nat (n_points_per_day - int (length acc));
                action = (if time_day_starts = 0 then Some ''prepend''
                          else if time_day_ends = None then Some ''append''
                          else None)
            in
            case extend_data acc (replicate k 0) action of
              Inl e \<Rightarrow> Inl e
            | Inr acc' \<Rightarrow>
               (case extend_data ang (replicate k 0) action of
                  Inl e \<Rightarrow> Inl e
                | Inr ang' \<Rightarrow>
                   (case extend_data non_wear (replicate k 0) action of
                      Inl e \<Rightarrow> Inl e
                    | Inr non_wear_list \<Rightarrow>
                        Inr (map (\<lambda>value. value / 14 - 210) acc', ang', non_wear_list)))))"

text \<open>The pieces of a day that \<^verbatim>\<open>get_graph_data\<close> works on, named for the statements below.\<close>

abbreviation fine_nonwear :: "metadata \<Rightarrow> int list" where
  "fine_nonwear md \<equiv>
     project_nonwear (nonwearscore md) (window_size_coarse md div window_size_fine md - 1)
       (length (metashort md))"

abbreviation enmo_slice :: "metadata \<Rightarrow> int \<Rightarrow> int option \<Rightarrow> real list" where
  "enmo_slice md s e \<equiv> py_slice (map ENMO (metashort md)) s e"

abbreviation anglez_slice :: "metadata \<Rightarrow> int \<Rightarrow> int option \<Rightarrow> real list" where
  "anglez_slice md s e \<equiv> py_slice (map anglez (metashort md)) s e"

abbreviation nonwear_slice :: "metadata \<Rightarrow> int \<Rightarrow> int option \<Rightarrow> int list" where
  "nonwear_slice md s e \<equiv> py_slice (fine_nonwear md) s e"

abbreviation day_window :: "metadata \<Rightarrow> int \<Rightarrow> error + (int \<times> int option)" where
  "day_window md d \<equiv>
     day_start_and_end_time_points (map timestamp (metashort md)) d (window_size_fine md)"

section \<open>Example recordings\<close>

text \<open>
  Four samples five seconds apart over three calendar days (the day changes before the
  second and before the third sample), with a coarse window of fifteen seconds.
\<close>

definition three_day_recording :: metadata where
  "three_day_recording =
     \<lparr>metashort =
        [\<lparr>timestamp = \<lparr>instant = 0, day = 1\<rparr>, ENMO = 0.21, anglez = 5\<rparr>,
         \<lparr>timestamp = \<lparr>instant = 5, day = 2\<rparr>, ENMO = - 0.07, anglez = 6\<rparr>,
         \<lparr>timestamp = \<lparr>instant = 10, day = 3\<rparr>, ENMO = 0.14, anglez = 7\<rparr>,
         \<lparr>timestamp = \<lparr>instant = 15, day = 3\<rparr>, ENMO = 0.28, anglez = 8\<rparr>],
      nonwearscore = [0, 2],
      window_size_fine = 5,
      window_size_coarse = 15\<rparr>"

text \<open>One sample: a recording of a single day.\<close>

definition single_day_recording :: metadata where
  "single_day_recording =
     \<lparr>metashort = [\<lparr>timestamp = \<lparr>instant = 0, day = 1\<rparr>, ENMO = 0.21, anglez = 5\<rparr>],
      nonwearscore = [0],
      window_size_fine = 5,
      window_size_coarse = 15\<rparr>"

section \<open>Specification-side definitions\<close>

text \<open>
  The indices the specification describes for the midnight boundaries: the index of the
  second element of every adjacent pair of timestamps whose day of the month differs,
  in increasing order.
\<close>

definition new_day_indices :: "datetime list \<Rightarrow> nat list" where
  "new_day_indices ts = filter (\<lambda>i. day (ts ! (i - 1)) \<noteq> day (ts ! i)) [1..<length ts]"

section \<open>Midnight indices: properties\<close>

lemma list_index_nth:
  "distinct (map instant ts) \<Longrightarrow> i < length ts \<Longrightarrow> list_index ts (ts ! i) = Inr i"
proof (induction ts arbitrary: i)
  case Nil
  then show ?case by simp
next
  case (Cons y ys)
  show ?case
  proof (cases i)
    case 0
    then show ?thesis by simp
  next
    case (Suc j)
    with Cons.prems have j: "j < length ys" and d: "distinct (map instant ys)"
      and n: "instant y \<notin> instant ` set ys" by auto
    from j have "ys ! j \<in> set ys" by simp
    with n have "instant y \<noteq> instant (ys ! j)" by blast
    with Cons.IH [OF d j] Suc show ?thesis by simp
  qed
qed

lemma list_index_total:
  "x \<in> set ts \<Longrightarrow> \<exists>i. list_index ts x = Inr i"
  by (induction ts) (auto split: sum.splits)

lemma midnight_indices_map:
  assumes "distinct (map instant ts)"
  shows "\<forall>i\<in>set js. 0 < i \<and> i < length ts \<Longrightarrow>
     midnight_indices ts (map (\<lambda>i. (ts ! (i - 1), ts ! i)) js) =
       Inr (map (\<lambda>i. int i + 1) (filter (\<lambda>i. day (ts ! (i - 1)) \<noteq> day (ts ! i)) js))"
  by (induction js) (simp_all add: list_index_nth [OF assms])

lemma midnight_indices_total:
  "\<forall>p\<in>set ps. snd p \<in> set ts \<Longrightarrow> \<exists>ms. midnight_indices ts ps = Inr ms"
proof (induction ps)
  case Nil
  then show ?case by simp
next
  case (Cons p ps)
  then obtain ms where ms: "midnight_indices ts ps = Inr ms" by auto
  from Cons.prems have "snd p \<in> set ts" by simp
  then obtain i where "list_index ts (snd p) = Inr i" using list_index_total by blast
  with ms show ?case by simp
qed

lemma itertools_pairwise_nth:
  "itertools_pairwise ts = map (\<lambda>i. (ts ! (i - 1), ts ! i)) [1..<length ts]"
  by (rule nth_equalityI) (auto simp add: itertools_pairwise_def nth_tl)

lemma get_midnights_total: "\<exists>ms. get_midnights ts = Inr ms"
  unfolding get_midnights_def
proof (rule midnight_indices_total, rule ballI)
  fix p assume "p \<in> set (itertools_pairwise ts)"
  then have "(fst p, snd p) \<in> set (zip ts (tl ts))"
    by (simp add: itertools_pairwise_def)
  then have "snd p \<in> set (tl ts)"
    by (rule set_zip_rightD)
  then show "snd p \<in> set ts" by (cases ts) auto
qed

lemma get_midnights_distinct_eq:
  assumes "distinct (map instant ts)"
  shows "get_midnights ts = Inr (map (\<lambda>i. int i + 1) (new_day_indices ts))"
  unfolding get_midnights_def itertools_pairwise_nth new_day_indices_def
  by (rule midnight_indices_map [OF assms]) auto

text \<open>
  Claim C1, as the code has it. For timestamps that are pairwise distinct,
  \<^verbatim>\<open>get_midnights\<close> returns, for each adjacent pair whose day of the month differs, the
  index of the second element of the pair plus one, that is the index of the sample
  after the first sample of the new day. The result is strictly increasing, and for
  every returned index \<open>j\<close> the day changes between the samples \<open>j - 2\<close> and
  \<open>j - 1\<close>.
\<close>

theorem get_midnights_after_new_day:
  assumes "distinct (map instant ts)"
  shows "get_midnights ts = Inr (map (\<lambda>i. int i + 1) (new_day_indices ts))
       \<and> sorted_wrt (<) (map (\<lambda>i. int i + 1) (new_day_indices ts))
       \<and> (\<forall>j \<in> set (map (\<lambda>i. int i + 1) (new_day_indices ts)).
             2 \<le> j \<and> j \<le> int (length ts) \<and> day (ts ! nat (j - 2)) \<noteq> day (ts ! nat (j - 1)))"
proof (intro conjI)
  show "get_midnights ts = Inr (map (\<lambda>i. int i + 1) (new_day_indices ts))"
    by (rule get_midnights_distinct_eq [OF assms])
  have "sorted_wrt (<) (new_day_indices ts)"
    unfolding new_day_indices_def by (rule sorted_wrt_filter) simp
  then show "sorted_wrt (<) (map (\<lambda>i. int i + 1) (new_day_indices ts))"
    by (simp add: sorted_wrt_map sorted_wrt_mono_rel [of _ "(<)"])
  show "\<forall>j \<in> set (map (\<lambda>i. int i + 1) (new_day_indices ts)).
             2 \<le> j \<and> j \<le> int (length ts) \<and> day (ts ! nat (j - 2)) \<noteq> day (ts ! nat (j - 1))"
  proof
    fix j assume "j \<in> set (map (\<lambda>i. int i + 1) (new_day_indices ts))"
    then obtain i where i: "j = int i + 1" "1 \<le> i" "i < length ts" "day (ts ! (i - 1)) \<noteq> day (ts ! i)"
      by (auto simp add: new_day_indices_def)
    then have "nat (j - 2) = i - 1" "nat (j - 1) = i" by auto
    with i show "2 \<le> j \<and> j \<le> int (length ts) \<and> day (ts ! nat (j - 2)) \<noteq> day (ts ! nat (j - 1))"
      by auto
  qed
qed

text \<open>Three samples five seconds apart, the day changing between the first two.\<close>

theorem get_midnights_after_new_day_witness:
  "distinct (map instant [\<lparr>instant = 0, day = 1\<rparr>, \<lparr>instant = 5, day = 2\<rparr>, \<lparr>instant = 10, day = 2\<rparr>])
   \<and> get_midnights [\<lparr>instant = 0, day = 1\<rparr>, \<lparr>instant = 5, day = 2\<rparr>, \<lparr>instant = 10, day = 2\<rparr>] = Inr [2]"
  using get_midnights_after_new_day [of "[\<lparr>instant = 0, day = 1\<rparr>, \<lparr>instant = 5, day = 2\<rparr>, \<lparr>instant = 10, day = 2\<rparr>]"]
  by (simp add: new_day_indices_def upt_conv_Cons)

text \<open>
  On the same recording the index of the second element of the pair is 1, the code
  returns 2, and the samples 1 and 2 lie on the same day.
\<close>

theorem get_midnights_second_element_counterexample:
  "distinct (map instant [\<lparr>instant = 0, day = 1\<rparr>, \<lparr>instant = 5, day = 2\<rparr>, \<lparr>instant = 10, day = 2\<rparr>])
   \<and> new_day_indices [\<lparr>instant = 0, day = 1\<rparr>, \<lparr>instant = 5, day = 2\<rparr>, \<lparr>instant = 10, day = 2\<rparr>] = [1]
   \<and> get_midnights [\<lparr>instant = 0, day = 1\<rparr>, \<lparr>instant = 5, day = 2\<rparr>, \<lparr>instant = 10, day = 2\<rparr>] = Inr [2]
   \<and> day ([\<lparr>instant = 0, day = 1\<rparr>, \<lparr>instant = 5, day = 2\<rparr>, \<lparr>instant = 10, day = 2\<rparr>] ! 2)
     = day ([\<lparr>instant = 0, day = 1\<rparr>, \<lparr>instant = 5, day = 2\<rparr>, \<lparr>instant = 10, day = 2\<rparr>] ! (2 - 1))"
  by (simp add: new_day_indices_def upt_conv_Cons get_midnights_def itertools_pairwise_def)

section \<open>Daylight-saving correction: properties\<close>

lemma round_half_even_of_int [simp]: "round_half_even (of_int m) = m"
  by (simp add: round_half_even_def Let_def)

lemma round_half_even_ge_floor: "\<lfloor>x\<rfloor> \<le> round_half_even x"
  by (simp add: round_half_even_def Let_def)

lemma round_half_even_le_floor: "round_half_even x \<le> \<lfloor>x\<rfloor> + 1"
  by (simp add: round_half_even_def Let_def)

lemma two_pow_pos [simp]: "0 < two_pow e"
  by (simp add: two_pow_def)

lemma binary_exponent_of_int:
  "k \<noteq> 0 \<Longrightarrow> binary_exponent (of_int k) = bitlen \<bar>k\<bar> - 1"
proof -
  assume "k \<noteq> 0"
  then have "1 \<le> \<bar>real_of_int k\<bar>" by (simp flip: of_int_abs)
  moreover have "\<lfloor>\<bar>real_of_int k\<bar>\<rfloor> = \<bar>k\<bar>" by (simp flip: of_int_abs)
  ultimately show ?thesis by (simp add: binary_exponent_def)
qed

lemma round_to_double_exact:
  assumes "\<bar>k\<bar> < 2 ^ 53"
  shows "round_to_double (of_int k) = of_int k"
proof (cases "k = 0")
  case True
  then show ?thesis by (simp add: round_to_double_def)
next
  case False
  define m where "m = nat (53 - bitlen \<bar>k\<bar>)"
  from assms have "bitlen \<bar>k\<bar> \<le> 53"
    by (simp add: bitlen_le_iff_power)
  then have e: "bitlen \<bar>k\<bar> - 1 - 52 = - int m" by (simp add: m_def)
  have u: "two_pow (- int m) = 1 / 2 ^ m"
    by (simp add: two_pow_def)
  have q: "real_of_int k / (1 / 2 ^ m) = of_int (k * 2 ^ m)" by simp
  from False show ?thesis
    unfolding round_to_double_def Let_def binary_exponent_of_int [OF False] e u q
      round_half_even_of_int
    by simp
qed

lemma round_to_double_large:
  assumes "2 ^ 53 \<le> n"
  shows "2 ^ 53 \<le> round_to_double (of_int n)"
proof -
  from assms have pos: "0 < n" and nz: "n \<noteq> 0" and ab: "\<bar>n\<bar> = n"
    by (auto intro: less_le_trans [of 0 "2 ^ 53" n])
  define m where "m = nat (bitlen n - 1 - 52)"
  from assms have "\<not> bitlen n \<le> 53"
    by (simp add: bitlen_le_iff_power)
  then have e: "bitlen n - 1 - 52 = int m" and e': "nat (bitlen n - 1) = 52 + m" and m: "1 \<le> m"
    by (simp_all add: m_def)
  have u: "two_pow (int m) = 2 ^ m" by (simp add: two_pow_def)
  from bitlen_bounds [OF pos] have "(2::int) ^ (52 + m) \<le> n" by (simp add: e')
  then have "real_of_int (2 ^ (52 + m)) \<le> real_of_int n" by (simp only: of_int_le_iff)
  then have "(2::real) ^ 52 * 2 ^ m \<le> of_int n" by (simp add: power_add)
  then have "(2::real) ^ 52 \<le> of_int n / 2 ^ m" by (simp add: pos_le_divide_eq)
  then have "(2::int) ^ 52 \<le> \<lfloor>real_of_int n / 2 ^ m\<rfloor>" by (simp add: le_floor_iff)
  with round_half_even_ge_floor [of "real_of_int n / 2 ^ m"]
  have "(2::int) ^ 52 \<le> round_half_even (real_of_int n / 2 ^ m)" by linarith
  then have "real_of_int (2 ^ 52) \<le> of_int (round_half_even (real_of_int n / 2 ^ m))"
    by (simp only: of_int_le_iff)
  then have r: "(2::real) ^ 52 \<le> of_int (round_half_even (real_of_int n / 2 ^ m))" by simp
  from m have "(2::real) ^ 1 \<le> 2 ^ m" by (intro power_increasing) simp_all
  then have "(2::real) \<le> 2 ^ m" by simp
  with r have "(2::real) ^ 52 * 2 \<le> of_int (round_half_even (real_of_int n / 2 ^ m)) * 2 ^ m"
    by (intro mult_mono) simp_all
  with nz show ?thesis
    unfolding round_to_double_def Let_def binary_exponent_of_int [OF nz] ab e u
    by simp
qed

lemma round_to_double_negative:
  assumes "x < 0"
  shows "round_to_double x \<le> 0"
proof -
  let ?u = "two_pow (binary_exponent x - 52)"
  from assms have "x / ?u < 0" by (simp add: divide_neg_pos)
  then have "\<lfloor>x / ?u\<rfloor> < 0" by (simp add: floor_less_iff)
  with round_half_even_le_floor [of "x / ?u"] have "round_half_even (x / ?u) \<le> 0" by linarith
  then have "real_of_int (round_half_even (x / ?u)) \<le> 0" by simp
  then have "real_of_int (round_half_even (x / ?u)) * ?u \<le> 0"
    by (intro mult_nonpos_nonneg) (simp_all add: less_imp_le)
  with assms show ?thesis by (simp add: round_to_double_def Let_def)
qed

lemma py_truediv_divides:
  assumes "0 < w" "w dvd 3600"
  shows "py_truediv 3600 w = of_int (3600 div w)"
    and "0 < 3600 div w" and "3600 div w \<le> 3600"
proof -
  from assms have le: "w \<le> 3600" by (intro zdvd_imp_le) simp_all
  with assms show pos: "0 < 3600 div w" by (simp add: pos_imp_zdiv_pos_iff)
  from assms(1) have "3600 div w \<le> 3600 div 1" by (intro zdiv_mono2) simp_all
  then show up: "3600 div w \<le> 3600" by simp
  have "real_of_int 3600 / real_of_int w = of_int (3600 div w)"
    using real_of_int_div [OF assms(2)] by simp
  moreover from pos up have "\<bar>3600 div w\<bar> < 2 ^ 53" by simp
  ultimately show "py_truediv 3600 w = of_int (3600 div w)"
    by (simp add: py_truediv_def round_to_double_exact)
qed

lemma py_floordiv_float_of_int:
  assumes "0 < k" "k \<le> 3600" "0 < c" "c \<le> 25"
  shows "py_floordiv (float_of_int n) (of_int k) = c \<longleftrightarrow> n div k = c"
proof -
  consider "\<bar>n\<bar> < 2 ^ 53" | "2 ^ 53 \<le> n" | "n \<le> - (2 ^ 53)" by linarith
  then show ?thesis
  proof cases
    case 1
    then show ?thesis
      by (simp add: py_floordiv_def float_of_int_def round_to_double_exact floor_divide_of_int_eq)
  next
    case 2
    from assms have "26 * k \<le> 2 ^ 53" by simp
    with 2 have nk: "26 * k \<le> n" by linarith
    then have "(26 * k) div k \<le> n div k" using assms(1) by (rule zdiv_mono1)
    with assms(1) have "26 \<le> n div k" by simp
    moreover
    from assms have "real_of_int (26 * k) \<le> 2 ^ 53" by simp
    with round_to_double_large [OF 2] have "26 * real_of_int k \<le> float_of_int n"
      by (simp add: float_of_int_def)
    with assms(1) have "26 \<le> float_of_int n / of_int k" by (simp add: pos_le_divide_eq)
    then have "26 \<le> py_floordiv (float_of_int n) (of_int k)"
      by (simp add: py_floordiv_def le_floor_iff)
    ultimately show ?thesis using assms by simp
  next
    case 3
    then have "n < 0" by simp
    with assms(1) have "n div k < 0" by (simp add: pos_imp_zdiv_neg_iff)
    moreover
    from 3 have "real_of_int n < 0" by simp
    then have "float_of_int n \<le> 0"
      unfolding float_of_int_def by (rule round_to_double_negative)
    with assms(1) have "float_of_int n / of_int k \<le> 0" by (simp add: divide_nonpos_pos)
    then have "py_floordiv (float_of_int n) (of_int k) \<le> 0"
      by (simp add: py_floordiv_def floor_le_iff)
    ultimately show ?thesis using assms by simp
  qed
qed

lemma round_to_double_nonneg:
  assumes "0 < x"
  shows "0 \<le> round_to_double x"
proof -
  let ?u = "two_pow (binary_exponent x - 52)"
  from assms have "0 \<le> x / ?u" by (simp add: less_imp_le)
  then have "0 \<le> \<lfloor>x / ?u\<rfloor>" by simp
  with round_half_even_ge_floor [of "x / ?u"] have "0 \<le> round_half_even (x / ?u)" by linarith
  then have "0 \<le> real_of_int (round_half_even (x / ?u)) * ?u"
    by (intro mult_nonneg_nonneg) (simp_all add: less_imp_le)
  with assms show ?thesis by (simp add: round_to_double_def Let_def)
qed

lemma adjust_divides:
  assumes "0 < w" "w dvd 3600"
  shows "adjust_timepoint_for_daylight_savings s e w =
           Inr (if (e - s + 1) div (3600 div w) = 25 then e - 3600 div w
                else if (e - s + 1) div (3600 div w) = 23 then e + 3600 div w
                else e)"
proof -
  note k = py_truediv_divides [OF assms]
  have q25: "py_floordiv (float_of_int (e - s + 1)) (of_int (3600 div w)) = 25
               \<longleftrightarrow> (e - s + 1) div (3600 div w) = 25"
    by (rule py_floordiv_float_of_int [OF k(2,3)]) simp_all
  have q23: "py_floordiv (float_of_int (e - s + 1)) (of_int (3600 div w)) = 23
               \<longleftrightarrow> (e - s + 1) div (3600 div w) = 23"
    by (rule py_floordiv_float_of_int [OF k(2,3)]) simp_all
  have hour: "py_int (of_int (3600 div w)) = 3600 div w"
    by (simp add: py_int_def)
  have sixty: "(60 * 60 :: int) = 3600" by simp
  from assms(1) show ?thesis
    unfolding adjust_timepoint_for_daylight_savings_def Let_def sixty k(1) q25 q23 hour
    by simp
qed

text \<open>
  Claim C4. For every positive window size, \<^verbatim>\<open>_adjust_timepoint_for_daylight_savings\<close>
  returns the end minus one hour of samples when
  \<^verbatim>\<open>(day_length + 1) // (3600 / window_size)\<close> is 25, the end plus one hour of samples
  when it is 23, and the end unchanged otherwise. The hour of samples is the float
  \<^verbatim>\<open>3600 / window_size\<close> rounded toward zero, which is its floor as it is not negative;
  the quotient is the floor of \<open>day_length + 1\<close> over that float. When the window size
  divides 3600 the float is the integer \<open>3600 div window_size\<close> and the quotient is the
  integer quotient of \<open>day_length + 1\<close> by it. The order of start and end plays no part.
\<close>

theorem adjust_three_cases:
  assumes "0 < w"
  shows "adjust_timepoint_for_daylight_savings start endp w =
           Inr (if \<lfloor>float_of_int (endp - start + 1) / py_truediv 3600 w\<rfloor> = 25
                  then endp - py_int (py_truediv 3600 w)
                else if \<lfloor>float_of_int (endp - start + 1) / py_truediv 3600 w\<rfloor> = 23
                  then endp + py_int (py_truediv 3600 w)
                else endp)
         \<and> py_int (py_truediv 3600 w) = \<lfloor>py_truediv 3600 w\<rfloor>
         \<and> 0 \<le> py_int (py_truediv 3600 w)
         \<and> (w dvd 3600 \<longrightarrow>
               py_truediv 3600 w = of_int (3600 div w)
             \<and> adjust_timepoint_for_daylight_savings start endp w =
                 Inr (if (endp - start + 1) div (3600 div w) = 25 then endp - 3600 div w
                      else if (endp - start + 1) div (3600 div w) = 23 then endp + 3600 div w
                      else endp))"
proof (intro conjI impI)
  from assms show "adjust_timepoint_for_daylight_savings start endp w =
           Inr (if \<lfloor>float_of_int (endp - start + 1) / py_truediv 3600 w\<rfloor> = 25
                  then endp - py_int (py_truediv 3600 w)
                else if \<lfloor>float_of_int (endp - start + 1) / py_truediv 3600 w\<rfloor> = 23
                  then endp + py_int (py_truediv 3600 w)
                else endp)"
    by (simp add: adjust_timepoint_for_daylight_savings_def Let_def py_floordiv_def)
  from assms have "0 < 3600 / real_of_int w" by simp
  then have nonneg: "0 \<le> py_truediv 3600 w"
    unfolding py_truediv_def of_int_numeral by (rule round_to_double_nonneg)
  then show "py_int (py_truediv 3600 w) = \<lfloor>py_truediv 3600 w\<rfloor>"
    by (simp add: py_int_def)
  from nonneg show "0 \<le> py_int (py_truediv 3600 w)"
    by (simp add: py_int_def)
next
  assume "w dvd 3600"
  with assms show "py_truediv 3600 w = of_int (3600 div w)"
    by (rule py_truediv_divides(1))
next
  assume "w dvd 3600"
  with assms show "adjust_timepoint_for_daylight_savings start endp w =
                 Inr (if (endp - start + 1) div (3600 div w) = 25 then endp - 3600 div w
                      else if (endp - start + 1) div (3600 div w) = 23 then endp + 3600 div w
                      else endp)"
    by (rule adjust_divides)
qed

text \<open>
  Five-second windows, 720 samples an hour: a day of 25 hours, of 23 hours, of 24
  hours. Then two window sizes that do not divide 3600. For 125 seconds the float
  \<^verbatim>\<open>3600 / 125\<close> lies just above 28.8, so 720 samples are 24 hours of it and the end 719
  stays. For 27 seconds the float \<^verbatim>\<open>3600 / 27\<close> lies just above 400 / 3, so 3200 samples
  are 23 hours of it and the end 3199 moves by 133.
\<close>

theorem adjust_three_cases_witness:
  "(0::int) < 5 \<and> (0::int) < 125 \<and> (0::int) < 27
   \<and> adjust_timepoint_for_daylight_savings 0 18000 5 = Inr 17280
   \<and> adjust_timepoint_for_daylight_savings 0 16560 5 = Inr 17280
   \<and> adjust_timepoint_for_daylight_savings 0 17280 5 = Inr 17280
   \<and> adjust_timepoint_for_daylight_savings 0 719 125 = Inr 719
   \<and> adjust_timepoint_for_daylight_savings 0 3199 27 = Inr 3332"
proof -
  have q: "\<lfloor>float_of_int 18001 / py_truediv 3600 5\<rfloor> = 25"
    "\<lfloor>float_of_int 16561 / py_truediv 3600 5\<rfloor> = 23"
    "\<lfloor>float_of_int 17281 / py_truediv 3600 5\<rfloor> = 24"
    "\<lfloor>float_of_int 720 / py_truediv 3600 125\<rfloor> = 24"
    "\<lfloor>float_of_int 3200 / py_truediv 3600 27\<rfloor> = 23"
    by code_simp+
  have h: "py_int (py_truediv 3600 5) = 720" "py_int (py_truediv 3600 27) = 133"
    by code_simp+
  have p: "(0::int) < 5" "(0::int) < 125" "(0::int) < 27" by simp_all
  from adjust_three_cases [OF p(1), of 0 18000, THEN conjunct1]
  have a: "adjust_timepoint_for_daylight_savings 0 18000 5 = Inr 17280"
    by (simp add: q h)
  from adjust_three_cases [OF p(1), of 0 16560, THEN conjunct1]
  have b: "adjust_timepoint_for_daylight_savings 0 16560 5 = Inr 17280"
    by (simp add: q h)
  from adjust_three_cases [OF p(1), of 0 17280, THEN conjunct1]
  have c: "adjust_timepoint_for_daylight_savings 0 17280 5 = Inr 17280"
    by (simp add: q h)
  from adjust_three_cases [OF p(2), of 0 719, THEN conjunct1]
  have d: "adjust_timepoint_for_daylight_savings 0 719 125 = Inr 719"
    by (simp add: q h)
  from adjust_three_cases [OF p(3), of 0 3199, THEN conjunct1]
  have e: "adjust_timepoint_for_daylight_savings 0 3199 27 = Inr 3332"
    by (simp add: q h)
  from p a b c d e show ?thesis by simp
qed

text \<open>
  Claim C5. For every start and end and every positive window size that divides 3600,
  the correction returns a value, and correcting that value again returns it unchanged.
\<close>

theorem adjust_idempotent:
  assumes "0 < w" "w dvd 3600"
  shows "\<exists>e1. adjust_timepoint_for_daylight_savings start endp w = Inr e1
            \<and> adjust_timepoint_for_daylight_savings start e1 w = Inr e1"
proof -
  define k where "k = 3600 div w"
  from py_truediv_divides(2) [OF assms] have "k \<noteq> 0" unfolding k_def by simp
  then have up: "(a + k) div k = a div k + 1" for a
    by simp
  have down: "(a - k) div k = a div k - 1" for a
    using up [of "a - k"] by simp
  have sub: "endp - k - start + 1 = (endp - start + 1) - k"
    and add: "endp + k - start + 1 = (endp - start + 1) + k" by simp_all
  show ?thesis
    unfolding adjust_divides [OF assms] k_def [symmetric]
    by (simp add: sub add down up del: diff_diff_eq2 add_diff_eq diff_add_eq)
qed

text \<open>A day of 25 hours at five-second windows is shortened once, then left alone.\<close>

theorem adjust_idempotent_witness:
  "(0::int) < 5 \<and> (5::int) dvd 3600
   \<and> adjust_timepoint_for_daylight_savings 0 18000 5 = Inr 17280
   \<and> adjust_timepoint_for_daylight_savings 0 17280 5 = Inr 17280"
proof -
  have h: "(0::int) < 5" "(5::int) dvd 3600" by simp_all
  have first: "adjust_timepoint_for_daylight_savings 0 18000 5 = Inr 17280"
    by (simp add: adjust_divides [OF h])
  from adjust_idempotent [OF h, of 0 18000] first
  have "adjust_timepoint_for_daylight_savings 0 17280 5 = Inr 17280" by simp
  with h first show ?thesis by simp
qed

section \<open>Day windows: properties\<close>

lemma length_itertools_pairwise [simp]:
  "length (itertools_pairwise xs) = length xs - 1"
  by (simp add: itertools_pairwise_def)

lemma nth_itertools_pairwise:
  "Suc i < length xs \<Longrightarrow> itertools_pairwise xs ! i = (xs ! i, xs ! Suc i)"
  by (simp add: itertools_pairwise_def nth_tl)

lemma py_getitem_out_of_range:
  "int (length xs) \<le> i \<or> i < - int (length xs) \<Longrightarrow> py_getitem xs i = Inl IndexError"
  by (auto simp add: py_getitem_def Let_def)

lemma py_getitem_negative:
  "- int (length xs) \<le> i \<Longrightarrow> i < 0 \<Longrightarrow> py_getitem xs i = py_getitem xs (i + int (length xs))"
  by (auto simp add: py_getitem_def Let_def)

lemma py_getitem_in_range:
  assumes "- int (length xs) \<le> i" "i < int (length xs)"
  shows "\<exists>j < length xs. py_getitem xs i = Inr (xs ! j)"
proof (cases "0 \<le> i")
  case True
  with assms have "nat i < length xs" "py_getitem xs i = Inr (xs ! nat i)"
    by (simp_all add: py_getitem_def Let_def)
  then show ?thesis by blast
next
  case False
  with assms have "nat (i + int (length xs)) < length xs"
      "py_getitem xs i = Inr (xs ! nat (i + int (length xs)))"
    by (simp_all add: py_getitem_def Let_def)
  then show ?thesis by blast
qed

lemma day_window_out_of_range:
  assumes "get_midnights ts = Inr ms"
    and "int (length ms) + 1 \<le> d \<or> d < - (int (length ms) + 1)"
  shows "day_start_and_end_time_points ts d w = Inl IndexError"
proof -
  have "py_getitem (itertools_pairwise (Some 0 # map Some ms @ [None])) d = Inl IndexError"
    using assms(2) by (intro py_getitem_out_of_range) auto
  with assms(1) show ?thesis
    by (simp add: day_start_and_end_time_points_def)
qed

lemma day_window_negative:
  assumes "get_midnights ts = Inr ms"
    and "- (int (length ms) + 1) \<le> d" "d < 0"
  shows "day_start_and_end_time_points ts d w =
         day_start_and_end_time_points ts (d + (int (length ms) + 1)) w"
proof -
  have "py_getitem (itertools_pairwise (Some 0 # map Some ms @ [None])) d =
        py_getitem (itertools_pairwise (Some 0 # map Some ms @ [None])) (d + (int (length ms) + 1))"
    using py_getitem_negative [of "itertools_pairwise (Some 0 # map Some ms @ [None])" d] assms(2,3)
    by (simp add: add.commute)
  with assms(1) show ?thesis
    by (simp add: day_start_and_end_time_points_def)
qed

lemma day_window_resolves:
  assumes "get_midnights ts = Inr ms" and "w \<noteq> 0"
    and "- (int (length ms) + 1) \<le> d" "d < int (length ms) + 1"
  shows "\<exists>s e. day_start_and_end_time_points ts d w = Inr (s, e)"
proof -
  let ?tt = "Some 0 # map Some ms @ [None]"
  from assms(3,4) obtain j where j: "j < length (itertools_pairwise ?tt)"
      and g: "py_getitem (itertools_pairwise ?tt) d = Inr (itertools_pairwise ?tt ! j)"
    using py_getitem_in_range [of "itertools_pairwise ?tt" d] by auto
  from j have j': "j \<le> length ms" by simp
  then have p: "itertools_pairwise ?tt ! j = (?tt ! j, ?tt ! Suc j)"
    by (intro nth_itertools_pairwise) simp
  from j' have "?tt ! j = Some ((0 # ms) ! j)"
    by (cases j) (simp_all add: nth_append)
  with assms(1,2) g p show ?thesis
    by (auto simp add: day_start_and_end_time_points_def adjust_timepoint_for_daylight_savings_def
          Let_def split: option.splits)
qed

text \<open>
  Claim C3, as the code has it. With \<open>n\<close> day windows (one more than the number of
  midnights), \<^verbatim>\<open>_day_start_and_end_time_points\<close> raises IndexError for every day index
  at or beyond \<open>n\<close> and for every day index below \<open>- n\<close>. A negative day index from
  \<open>- n\<close> to \<open>- 1\<close> is not rejected: the list is indexed from its end, and the call
  behaves as the one for the day index plus \<open>n\<close>.
\<close>

theorem day_index_out_of_range:
  "\<exists>ms. get_midnights ts = Inr ms
      \<and> (\<forall>d. int (length ms) + 1 \<le> d \<or> d < - (int (length ms) + 1) \<longrightarrow>
             day_start_and_end_time_points ts d w = Inl IndexError)
      \<and> (\<forall>d. - (int (length ms) + 1) \<le> d \<and> d < 0 \<longrightarrow>
             day_start_and_end_time_points ts d w =
             day_start_and_end_time_points ts (d + (int (length ms) + 1)) w)"
proof -
  obtain ms where ms: "get_midnights ts = Inr ms"
    using get_midnights_total by blast
  show ?thesis
  proof (intro exI conjI allI impI)
    show "get_midnights ts = Inr ms" by (rule ms)
  next
    fix d assume "int (length ms) + 1 \<le> d \<or> d < - (int (length ms) + 1)"
    then show "day_start_and_end_time_points ts d w = Inl IndexError"
      by (rule day_window_out_of_range [OF ms])
  next
    fix d assume "- (int (length ms) + 1) \<le> d \<and> d < 0"
    then show "day_start_and_end_time_points ts d w =
             day_start_and_end_time_points ts (d + (int (length ms) + 1)) w"
      by (intro day_window_negative [OF ms]) simp_all
  qed
qed

text \<open>A recording with one midnight has two day windows.\<close>

theorem day_index_out_of_range_witness:
  "get_midnights [\<lparr>instant = 0, day = 1\<rparr>, \<lparr>instant = 5, day = 2\<rparr>, \<lparr>instant = 10, day = 2\<rparr>] = Inr [2]
   \<and> day_start_and_end_time_points
        [\<lparr>instant = 0, day = 1\<rparr>, \<lparr>instant = 5, day = 2\<rparr>, \<lparr>instant = 10, day = 2\<rparr>] 2 5 = Inl IndexError
   \<and> day_start_and_end_time_points
        [\<lparr>instant = 0, day = 1\<rparr>, \<lparr>instant = 5, day = 2\<rparr>, \<lparr>instant = 10, day = 2\<rparr>] (- 3) 5 = Inl IndexError
   \<and> day_start_and_end_time_points
        [\<lparr>instant = 0, day = 1\<rparr>, \<lparr>instant = 5, day = 2\<rparr>, \<lparr>instant = 10, day = 2\<rparr>] (- 2) 5 = 
      day_start_and_end_time_points
        [\<lparr>instant = 0, day = 1\<rparr>, \<lparr>instant = 5, day = 2\<rparr>, \<lparr>instant = 10, day = 2\<rparr>] 0 5"
proof -
  let ?ts = "[\<lparr>instant = 0, day = 1\<rparr>, \<lparr>instant = 5, day = 2\<rparr>, \<lparr>instant = 10, day = 2\<rparr>]"
  have m: "get_midnights ?ts = Inr [2]"
    by (simp add: get_midnights_def itertools_pairwise_def)
  from day_index_out_of_range [of ?ts 5] m
  have out: "\<forall>d. 2 \<le> d \<or> d < - 2 \<longrightarrow> day_start_and_end_time_points ?ts d 5 = Inl IndexError"
    and neg: "\<forall>d. - 2 \<le> d \<and> d < 0 \<longrightarrow>
       day_start_and_end_time_points ?ts d 5 = day_start_and_end_time_points ?ts (d + 2) 5"
    by simp_all
  from out have "day_start_and_end_time_points ?ts 2 5 = Inl IndexError"
    and "day_start_and_end_time_points ?ts (- 3) 5 = Inl IndexError" by simp_all
  moreover from neg have "day_start_and_end_time_points ?ts (- 2) 5 = day_start_and_end_time_points ?ts 0 5"
    by simp
  ultimately show ?thesis using m by simp
qed

text \<open>On that recording the day index \<open>- 1\<close> returns the window of the last day.\<close>

theorem negative_day_index_counterexample:
  "day_start_and_end_time_points
     [\<lparr>instant = 0, day = 1\<rparr>, \<lparr>instant = 5, day = 2\<rparr>, \<lparr>instant = 10, day = 2\<rparr>] (- 1) 5 = Inr (2, None)"
  by (simp add: day_start_and_end_time_points_def get_midnights_def itertools_pairwise_def
        py_getitem_def)

section \<open>Non-wear projection: properties\<close>

lemma length_slice_assign [simp]: "length (slice_assign xs a b v) = length xs"
  by (simp add: slice_assign_def Let_def)

lemma nth_slice_assign_nonneg:
  assumes "0 \<le> r" "j < length xs"
  shows "slice_assign xs (int i) (int i + r) v ! j =
           (if int i \<le> int j \<and> int j < int i + r then v else xs ! j)"
proof -
  from assms(2) have lo: "slice_bound (length xs) (int i) \<le> j \<longleftrightarrow> int i \<le> int j"
    by (auto simp add: slice_bound_def)
  from assms have hi: "j < slice_bound (length xs) (int i + r) \<longleftrightarrow> int j < int i + r"
    by (auto simp add: slice_bound_def)
  from assms(2) show ?thesis
    by (simp add: slice_assign_def Let_def lo hi)
qed

lemma fold_slice_assign:
  assumes "0 \<le> r"
  shows "fold (\<lambda>index nonwear. slice_assign nonwear (int index) (int index + r) 1) js v =
           map (\<lambda>j. if \<exists>i\<in>set js. int i \<le> int j \<and> int j < int i + r then 1 else v ! j)
             [0..<length v]"
proof (induction js arbitrary: v)
  case Nil
  show ?case by (simp add: map_nth)
next
  case (Cons i js)
  show ?case
    unfolding fold_simps Cons.IH
    by (rule map_cong) (auto simp add: nth_slice_assign_nonneg [OF assms])
qed

lemma set_nonwear_elements:
  "set (nonwear_elements scores) = {i. i < length scores \<and> scores ! i > 1}"
  by (auto simp add: nonwear_elements_def)

lemma project_nonwear_nonneg:
  assumes "0 \<le> r"
  shows "project_nonwear scores r n =
           map (\<lambda>j. if \<exists>i<length scores. scores ! i > 1 \<and> int i \<le> int j \<and> int j < int i + r
                     then 1 else 0) [0..<n]"
  unfolding project_nonwear_def fold_slice_assign [OF assms]
  by (rule map_cong) (auto simp add: set_nonwear_elements)

lemma length_project_nonwear [simp]: "length (project_nonwear scores r n) = n"
proof -
  have "length (fold (\<lambda>index nonwear. slice_assign nonwear (int index) (int index + r) (1::int)) js v)
          = length v" for js and v :: "int list"
    by (induction js arbitrary: v) simp_all
  then show ?thesis by (simp add: project_nonwear_def)
qed

text \<open>
  Claim C6, as the code has it. For a ratio that is not negative (the coarse window is
  at least the fine one), the projection is the vector of length \<open>fine_length\<close> that
  is 1 exactly at the fine indices \<open>j\<close> lying in \<open>[i, i + ratio)\<close> for some coarse
  index \<open>i\<close> whose score exceeds 1, and 0 elsewhere; it has length \<open>fine_length\<close>
  for every ratio. For the coarse scores \<open>[0, 2, 0]\<close>, ratio 2 and fine length 6 the
  fine indices 1 and 2 are set: the result is \<open>[0, 1, 1, 0, 0, 0]\<close>.
\<close>

theorem project_nonwear_flags:
  "(0 \<le> ratio \<longrightarrow>
      project_nonwear coarse_scores ratio fine_length =
        map (\<lambda>j. if \<exists>i<length coarse_scores.
                       coarse_scores ! i > 1 \<and> int i \<le> int j \<and> int j < int i + ratio
                  then 1 else 0) [0..<fine_length])
   \<and> length (project_nonwear coarse_scores ratio fine_length) = fine_length
   \<and> project_nonwear [0, 2, 0] 2 6 = [0, 1, 1, 0, 0, 0]"
proof (intro conjI impI)
  show "project_nonwear [0, 2, 0] 2 6 = [0, 1, 1, 0, 0, 0]"
    by (simp add: project_nonwear_def nonwear_elements_def slice_assign_def slice_bound_def
          upt_conv_Cons)
qed (simp_all add: project_nonwear_nonneg)

text \<open>Two flagged coarse samples, one fine sample each.\<close>

theorem project_nonwear_flags_witness:
  "(0::int) \<le> 1 \<and> project_nonwear [2, 0, 3] 1 4 = [1, 0, 1, 0]"
  using project_nonwear_flags [of 1 "[2, 0, 3]" 4]
  by (simp add: upt_conv_Cons Ex_less_Suc)

text \<open>The vector the specification gives for its example is not the one computed.\<close>

theorem project_nonwear_example_counterexample:
  "project_nonwear [0, 2, 0] 2 6 \<noteq> [0, 0, 1, 1, 0, 0]"
  by (simp add: project_nonwear_def nonwear_elements_def slice_assign_def slice_bound_def
        upt_conv_Cons)

section \<open>Assembling a day: properties\<close>

lemma length_py_slice:
  "length (py_slice xs s e) = slice_stop (length xs) e - slice_bound (length xs) s"
proof -
  have "slice_stop (length xs) e \<le> length xs"
    by (auto simp add: slice_stop_def slice_bound_def split: option.splits)
  then show ?thesis by (auto simp add: py_slice_def Let_def)
qed

lemma length_anglez_slice: "length (anglez_slice md s e) = length (enmo_slice md s e)"
  by (simp add: length_py_slice)

lemma length_nonwear_slice: "length (nonwear_slice md s e) = length (enmo_slice md s e)"
  by (simp add: length_py_slice)

lemma get_graph_data_window:
  assumes "window_size_fine md \<noteq> 0" and "day_window md d = Inr (s, e)"
  shows "get_graph_data md d npd =
     (let k = nat (npd - int (length (enmo_slice md s e))) in
      Inr (if s = 0 then
             (map (\<lambda>value. value / 14 - 210)
                (replicate k 0 @ map (\<lambda>v. \<bar>v * 1000\<bar>) (enmo_slice md s e)),
              replicate k 0 @ anglez_slice md s e,
              replicate k 0 @ nonwear_slice md s e)
           else if e = None then
             (map (\<lambda>value. value / 14 - 210)
                (map (\<lambda>v. \<bar>v * 1000\<bar>) (enmo_slice md s e) @ replicate k 0),
              anglez_slice md s e @ replicate k 0,
              nonwear_slice md s e @ replicate k 0)
           else
             (map (\<lambda>value. value / 14 - 210) (map (\<lambda>v. \<bar>v * 1000\<bar>) (enmo_slice md s e)),
              anglez_slice md s e,
              nonwear_slice md s e)))"
  using assms by (simp add: get_graph_data_def Let_def extend_data_def)


lemma three_day_windows:
  "get_midnights (map timestamp (metashort three_day_recording)) = Inr [2, 3]"
  "day_window three_day_recording 0 = Inr (0, Some 2)"
  "day_window three_day_recording 1 = Inr (2, Some 3)"
  "day_window three_day_recording 2 = Inr (3, None)"
  by code_simp+

lemma single_day_window:
  "day_window single_day_recording 0 = Inr (0, None)"
  by code_simp

lemma example_window_sizes:
  "window_size_fine three_day_recording \<noteq> 0" "window_size_fine single_day_recording \<noteq> 0"
  by (simp_all add: three_day_recording_def single_day_recording_def)

text \<open>
  Claim C2, as the code has it. For a day whose window has \<open>start > 0\<close> and an end
  that is not \<^verbatim>\<open>None\<close>, \<^verbatim>\<open>get_graph_data\<close> raises nothing and pads nothing: it returns
  the three slices as they are, the magnitude rescaled, whatever their length is and
  whatever \<open>n_points_per_day\<close> is.
\<close>

theorem interior_day_unpadded:
  assumes "window_size_fine md \<noteq> 0"
    and "day_window md d = Inr (s, Some e)" and "0 < s"
  shows "get_graph_data md d npd =
           Inr (map (\<lambda>v. \<bar>v * 1000\<bar> / 14 - 210) (enmo_slice md s (Some e)),
                anglez_slice md s (Some e),
                nonwear_slice md s (Some e))"
  using assms(3) by (simp add: get_graph_data_window [OF assms(1,2)] Let_def comp_def)

text \<open>
  The middle day of the three-day recording holds one sample.
\<close>

theorem interior_day_unpadded_witness:
  "window_size_fine three_day_recording \<noteq> 0
   \<and> day_window three_day_recording 1 = Inr (2, Some 3) \<and> (0::int) < 2
   \<and> get_graph_data three_day_recording 1 1 = Inr ([- 200], [7], [1])"
proof -
  have "enmo_slice three_day_recording 2 (Some 3) = [0.14]"
    and "anglez_slice three_day_recording 2 (Some 3) = [7]"
    and "nonwear_slice three_day_recording 2 (Some 3) = [1]"
    by code_simp+
  with interior_day_unpadded [OF example_window_sizes(1) three_day_windows(3), of 1]
  have "get_graph_data three_day_recording 1 1 = Inr ([- 200], [7], [1])" by simp
  with example_window_sizes(1) three_day_windows(3) show ?thesis by simp
qed

text \<open>
  With three points per day expected, the middle day of the three-day recording is
  returned with its single sample and no error.
\<close>

theorem interior_mismatch_counterexample:
  "day_window three_day_recording 1 = Inr (2, Some 3)
   \<and> length (enmo_slice three_day_recording 2 (Some 3)) = 1
   \<and> get_graph_data three_day_recording 1 3 = Inr ([- 200], [7], [1])"
  by code_simp


text \<open>
  Claim C7. Whenever the day window resolves, \<^verbatim>\<open>get_graph_data\<close> returns three
  sequences in which the samples of the day slice sit after the prepended padding (if
  any): sample \<open>i\<close> of the magnitude slice, of value \<open>v\<close>, is returned as
  \<open>\<bar>v * 1000\<bar> / 14 - 210\<close>, and sample \<open>i\<close> of the angle and of the non-wear slice is
  returned as it is.
\<close>

theorem magnitude_rescaled:
  assumes "window_size_fine md \<noteq> 0" and "day_window md d = Inr (s, e)"
  shows "\<exists>acc ang nw.
           get_graph_data md d npd = Inr (acc, ang, nw)
         \<and> (\<forall>i < length (enmo_slice md s e).
               acc ! ((if s = 0 then nat (npd - int (length (enmo_slice md s e))) else 0) + i)
                 = \<bar>enmo_slice md s e ! i * 1000\<bar> / 14 - 210
             \<and> ang ! ((if s = 0 then nat (npd - int (length (enmo_slice md s e))) else 0) + i)
                 = anglez_slice md s e ! i
             \<and> nw ! ((if s = 0 then nat (npd - int (length (enmo_slice md s e))) else 0) + i)
                 = nonwear_slice md s e ! i)"
  unfolding get_graph_data_window [OF assms] Let_def
  by (simp add: nth_append length_anglez_slice length_nonwear_slice)

text \<open>
  A single sample of magnitude 0.21 behind two padding values: it is returned as -195.
\<close>

theorem magnitude_rescaled_witness:
  "window_size_fine single_day_recording \<noteq> 0
   \<and> day_window single_day_recording 0 = Inr (0, None)
   \<and> (\<exists>acc ang nw. get_graph_data single_day_recording 0 3 = Inr (acc, ang, nw)
         \<and> acc ! 2 = - 195 \<and> ang ! 2 = 5 \<and> nw ! 2 = 0)"
proof -
  have sl: "enmo_slice single_day_recording 0 None = [0.21]"
    "anglez_slice single_day_recording 0 None = [5]"
    "nonwear_slice single_day_recording 0 None = [0]"
    by code_simp+
  from magnitude_rescaled [OF example_window_sizes(2) single_day_window, of 3]
  have "\<exists>acc ang nw. get_graph_data single_day_recording 0 3 = Inr (acc, ang, nw)
         \<and> acc ! 2 = - 195 \<and> ang ! 2 = 5 \<and> nw ! 2 = 0"
    by (simp add: sl)
  with example_window_sizes(2) single_day_window show ?thesis by simp
qed

text \<open>
  Claim C8, as the code has it. For a non-zero fine window size and every day index
  from \<open>- n\<close> to \<open>n - 1\<close>, where \<open>n\<close> is the number of day windows,
  \<^verbatim>\<open>get_graph_data\<close> returns three sequences of one common length. On the first day
  (start 0) and on the last day (end \<^verbatim>\<open>None\<close>) that length is the larger of
  \<open>n_points_per_day\<close> and the length of the slice, so exactly \<open>n_points_per_day\<close>
  when the slice is not longer; on any other day it is the length of the slice.
\<close>

theorem day_signal_lengths:
  assumes "window_size_fine md \<noteq> 0"
    and "get_midnights (map timestamp (metashort md)) = Inr ms"
    and "- (int (length ms) + 1) \<le> d" and "d < int (length ms) + 1"
  shows "\<exists>s e acc ang nw.
           day_window md d = Inr (s, e)
         \<and> get_graph_data md d npd = Inr (acc, ang, nw)
         \<and> length ang = length acc \<and> length nw = length acc
         \<and> int (length acc) =
             (if s = 0 \<or> e = None then max npd (int (length (enmo_slice md s e)))
              else int (length (enmo_slice md s e)))"
proof -
  from day_window_resolves [OF assms(2,1,3,4)]
  obtain s e where w: "day_window md d = Inr (s, e)" by blast
  show ?thesis
    unfolding w get_graph_data_window [OF assms(1) w] Let_def
    by (auto simp add: length_anglez_slice length_nonwear_slice)
qed

text \<open>
  The first day of the three-day recording is padded from two samples to three; the
  middle day keeps its single sample.
\<close>

theorem day_signal_lengths_witness:
  "window_size_fine three_day_recording \<noteq> 0
   \<and> get_midnights (map timestamp (metashort three_day_recording)) = Inr [2, 3]
   \<and> (\<exists>acc ang nw. get_graph_data three_day_recording 0 3 = Inr (acc, ang, nw)
         \<and> length acc = 3 \<and> length ang = 3 \<and> length nw = 3)
   \<and> (\<exists>acc ang nw. get_graph_data three_day_recording 1 3 = Inr (acc, ang, nw)
         \<and> length acc = 1 \<and> length ang = 1 \<and> length nw = 1)"
proof -
  have sl: "length (enmo_slice three_day_recording 0 (Some 2)) = 2"
    "length (enmo_slice three_day_recording 2 (Some 3)) = 1"
    by code_simp+
  from day_signal_lengths [OF example_window_sizes(1) three_day_windows(1), of 0 3]
  have "\<exists>acc ang nw. get_graph_data three_day_recording 0 3 = Inr (acc, ang, nw)
         \<and> length acc = 3 \<and> length ang = 3 \<and> length nw = 3"
    by (auto simp add: three_day_windows(2) sl)
  moreover
  from day_signal_lengths [OF example_window_sizes(1) three_day_windows(1), of 1 3]
  have "\<exists>acc ang nw. get_graph_data three_day_recording 1 3 = Inr (acc, ang, nw)
         \<and> length acc = 1 \<and> length ang = 1 \<and> length nw = 1"
    by (auto simp add: three_day_windows(3) sl)
  ultimately show ?thesis
    using example_window_sizes(1) three_day_windows(1) by simp
qed

text \<open>
  With one point per day expected the first day is returned with its two samples, and
  with two points per day expected the middle day is returned with its single sample.
\<close>

theorem day_signal_lengths_counterexample:
  "day_window three_day_recording 0 = Inr (0, Some 2)
   \<and> get_graph_data three_day_recording 0 1 = Inr ([- 195, - 205], [5, 6], [0, 1])
   \<and> length [- 195, - 205 :: real] \<noteq> 1
   \<and> day_window three_day_recording 1 = Inr (2, Some 3)
   \<and> get_graph_data three_day_recording 1 2 = Inr ([- 200], [7], [1])
   \<and> length [- 200 :: real] \<noteq> 2"
  by code_simp

text \<open>
  Claim C9, as the code has it. A day whose window starts at 0 has its padding
  prepended, also when its end is \<^verbatim>\<open>None\<close> (a recording of a single day); a day whose
  window ends at \<^verbatim>\<open>None\<close> and does not start at 0 has its padding appended. The padding
  is \<open>n_points_per_day\<close> minus the length of the slice zeros (none when that is
  negative); in the magnitude they are rescaled with the samples, to \<open>-210\<close>.
\<close>

theorem padding_direction:
  assumes "window_size_fine md \<noteq> 0" and "day_window md d = Inr (s, e)"
  shows "(s = 0 \<longrightarrow>
            get_graph_data md d npd =
              Inr (replicate (nat (npd - int (length (enmo_slice md s e)))) (- 210)
                     @ map (\<lambda>v. \<bar>v * 1000\<bar> / 14 - 210) (enmo_slice md s e),
                   replicate (nat (npd - int (length (enmo_slice md s e)))) 0
                     @ anglez_slice md s e,
                   replicate (nat (npd - int (length (enmo_slice md s e)))) 0
                     @ nonwear_slice md s e))
       \<and> (s \<noteq> 0 \<and> e = None \<longrightarrow>
            get_graph_data md d npd =
              Inr (map (\<lambda>v. \<bar>v * 1000\<bar> / 14 - 210) (enmo_slice md s e)
                     @ replicate (nat (npd - int (length (enmo_slice md s e)))) (- 210),
                   anglez_slice md s e
                     @ replicate (nat (npd - int (length (enmo_slice md s e)))) 0,
                   nonwear_slice md s e
                     @ replicate (nat (npd - int (length (enmo_slice md s e)))) 0))"
  unfolding get_graph_data_window [OF assms] Let_def
  by (simp add: comp_def)

text \<open>
  First and last day of the three-day recording, three points per day.
\<close>

theorem padding_direction_witness:
  "window_size_fine three_day_recording \<noteq> 0
   \<and> day_window three_day_recording 0 = Inr (0, Some 2)
   \<and> day_window three_day_recording 2 = Inr (3, None)
   \<and> get_graph_data three_day_recording 0 3 = Inr ([- 210, - 195, - 205], [0, 5, 6], [0, 0, 1])
   \<and> get_graph_data three_day_recording 2 3 = Inr ([- 190, - 210, - 210], [8, 0, 0], [0, 0, 0])"
proof -
  have sl: "enmo_slice three_day_recording 0 (Some 2) = [0.21, - 0.07]"
    "anglez_slice three_day_recording 0 (Some 2) = [5, 6]"
    "nonwear_slice three_day_recording 0 (Some 2) = [0, 1]"
    "enmo_slice three_day_recording 3 None = [0.28]"
    "anglez_slice three_day_recording 3 None = [8]"
    "nonwear_slice three_day_recording 3 None = [0]"
    by code_simp+
  from padding_direction [OF example_window_sizes(1) three_day_windows(2), of 3]
  have "get_graph_data three_day_recording 0 3 = Inr ([- 210, - 195, - 205], [0, 5, 6], [0, 0, 1])"
    by (simp add: sl)
  moreover
  from padding_direction [OF example_window_sizes(1) three_day_windows(4), of 3]
  have "get_graph_data three_day_recording 2 3 = Inr ([- 190, - 210, - 210], [8, 0, 0], [0, 0, 0])"
    by (simp add: sl numeral_2_eq_2)
  ultimately show ?thesis
    using example_window_sizes(1) three_day_windows(2,4) by simp
qed

text \<open>
  The only day of the single-day recording is also its last day; with two points per
  day its zero is prepended, where appending would give the angles \<open>[5, 0]\<close>.
\<close>

theorem single_day_prepends_counterexample:
  "day_window single_day_recording 0 = Inr (0, None)
   \<and> get_graph_data single_day_recording 0 2 = Inr ([- 210, - 195], [0, 5], [0, 0])
   \<and> anglez_slice single_day_recording 0 None @ [0] = [5, 0]"
  by code_simp

text \<open>
  Claim C10. When the day slice is longer than \<open>n_points_per_day\<close> the extension is
  empty, and \<^verbatim>\<open>get_graph_data\<close> returns the three whole slices (the magnitude
  rescaled), each as long as the slice.
\<close>

theorem long_slice_returned_whole:
  assumes "window_size_fine md \<noteq> 0" and "day_window md d = Inr (s, e)"
    and "npd < int (length (enmo_slice md s e))"
  shows "get_graph_data md d npd =
           Inr (map (\<lambda>v. \<bar>v * 1000\<bar> / 14 - 210) (enmo_slice md s e),
                anglez_slice md s e,
                nonwear_slice md s e)
       \<and> length (anglez_slice md s e) = length (enmo_slice md s e)
       \<and> length (nonwear_slice md s e) = length (enmo_slice md s e)"
proof -
  from assms(3) have k: "nat (npd - int (length (enmo_slice md s e))) = 0" by simp
  show ?thesis
    unfolding get_graph_data_window [OF assms(1,2)] Let_def k
    by (simp add: comp_def length_anglez_slice length_nonwear_slice)
qed

text \<open>
  The first day of the three-day recording has two samples; one point per day is asked.
\<close>

theorem long_slice_returned_whole_witness:
  "window_size_fine three_day_recording \<noteq> 0
   \<and> day_window three_day_recording 0 = Inr (0, Some 2)
   \<and> (1::int) < int (length (enmo_slice three_day_recording 0 (Some 2)))
   \<and> get_graph_data three_day_recording 0 1 = Inr ([- 195, - 205], [5, 6], [0, 1])"
proof -
  have sl: "enmo_slice three_day_recording 0 (Some 2) = [0.21, - 0.07]"
    "anglez_slice three_day_recording 0 (Some 2) = [5, 6]"
    "nonwear_slice three_day_recording 0 (Some 2) = [0, 1]"
    by code_simp+
  then have long: "(1::int) < int (length (enmo_slice three_day_recording 0 (Some 2)))"
    by simp
  from long_slice_returned_whole [OF example_window_sizes(1) three_day_windows(2) long]
  have "get_graph_data three_day_recording 0 1 = Inr ([- 195, - 205], [5, 6], [0, 1])"
    by (simp add: sl)
  with example_window_sizes(1) three_day_windows(2) long show ?thesis by simp
qed

end
